theory Spec2Isabelle
  imports Main
begin

section \<open>Python values as the server handles them\<close>

text \<open>
  The server (\<^verbatim>\<open>mcp_server.py\<close>) moves JSON-shaped Python values around: tool
  arguments arrive as a \<^verbatim>\<open>dict[str, Any]\<close>, results leave as dictionaries.
  \<open>pyval\<close> covers \<^verbatim>\<open>None\<close>, \<^verbatim>\<open>bool\<close>, \<^verbatim>\<open>int\<close> (unbounded), \<^verbatim>\<open>str\<close>,
  \<^verbatim>\<open>list\<close> and \<^verbatim>\<open>dict\<close> with string keys (insertion ordered). Fractional JSON
  numbers (Python \<^verbatim>\<open>float\<close>) are outside the model. A \<open>string\<close> is a list of
  8-bit characters, so texts are restricted to code points below 256.
\<close>

datatype pyval =
    PNone
  | PBool bool
  | PInt int
  | PStr string
  | PList "pyval list"
  | PDict "(string \<times> pyval) list"

text \<open>Exceptions, by class, each with what \<^verbatim>\<open>str(e)\<close> needs. \<open>ValueError\<close> is a
  \<^verbatim>\<open>ValueError\<close> that is not a \<^verbatim>\<open>JSONDecodeError\<close>. \<open>OtherException\<close> stands for
  every further subclass of \<^verbatim>\<open>Exception\<close> (\<^verbatim>\<open>FileNotFoundError\<close>,
  \<^verbatim>\<open>PermissionError\<close>, ...), carrying its message.\<close>

datatype exn =
    KeyError string
  | TypeError string
  | TimeoutExpired string
  | JSONDecodeError string
  | ValueError string
  | RecursionError string
  | OtherException string

text \<open>Sequencing of a computation that may raise.\<close>

definition and_then :: "exn + 'a \<Rightarrow> ('a \<Rightarrow> exn + 'b) \<Rightarrow> exn + 'b" where
  "and_then m f = (case m of Inl e \<Rightarrow> Inl e | Inr v \<Rightarrow> f v)"

text \<open>Truth value testing (\<^verbatim>\<open>if x:\<close>).\<close>

fun truthy :: "pyval \<Rightarrow> bool" where
  "truthy PNone = False"
| "truthy (PBool b) = b"
| "truthy (PInt n) = (n \<noteq> 0)"
| "truthy (PStr s) = (s \<noteq> [])"
| "truthy (PList xs) = (xs \<noteq> [])"
| "truthy (PDict kvs) = (kvs \<noteq> [])"

fun type_name :: "pyval \<Rightarrow> string" where
  "type_name PNone = ''NoneType''"
| "type_name (PBool b) = ''bool''"
| "type_name (PInt n) = ''int''"
| "type_name (PStr s) = ''str''"
| "type_name (PList xs) = ''list''"
| "type_name (PDict kvs) = ''dict''"

subsection \<open>\<^verbatim>\<open>str\<close> and \<^verbatim>\<open>repr\<close>\<close>

function digits_nat :: "nat \<Rightarrow> string" where
  "digits_nat n =
     (if n < 10 then [''0123456789'' ! n]
      else digits_nat (n div 10) @ [''0123456789'' ! (n mod 10)])"
  by pat_completeness auto
termination
  by (relation "measure (\<lambda>n. n)") auto

declare digits_nat.simps [simp del]

definition str_int :: "int \<Rightarrow> string" where
  "str_int i = (if i < 0 then CHR ''-'' # digits_nat (nat (- i)) else digits_nat (nat i))"

definition hex2 :: "nat \<Rightarrow> string" where
  "hex2 n = [''0123456789abcdef'' ! (n div 16 mod 16), ''0123456789abcdef'' ! (n mod 16)]"

definition py_printable :: "char \<Rightarrow> bool" where
  "py_printable c =
     (let n = (of_char c :: nat) in (32 \<le> n \<and> n < 127) \<or> (161 \<le> n \<and> n \<noteq> 173))"

text \<open>One character of \<^verbatim>\<open>repr\<close> of a string, for the chosen quote character.\<close>

definition repr_char :: "char \<Rightarrow> char \<Rightarrow> string" where
  "repr_char quote c =
     (if c = quote \<or> c = CHR 0x5C then [CHR 0x5C, c]
      else if c = CHR 0x09 then [CHR 0x5C, CHR ''t'']
      else if c = CHR 0x0A then [CHR 0x5C, CHR ''n'']
      else if c = CHR 0x0D then [CHR 0x5C, CHR ''r'']
      else if py_printable c then [c]
      else [CHR 0x5C, CHR ''x''] @ hex2 (of_char c))"

definition repr_str :: "string \<Rightarrow> string" where
  "repr_str s =
     (let quote = (if CHR 0x27 \<in> set s \<and> CHR 0x22 \<notin> set s then CHR 0x22 else CHR 0x27)
      in quote # concat (map (repr_char quote) s) @ [quote])"

fun join :: "string \<Rightarrow> string list \<Rightarrow> string" where
  "join sep [] = []"
| "join sep [x] = x"
| "join sep (x # y # ys) = x @ sep @ join sep (y # ys)"

fun py_repr :: "pyval \<Rightarrow> string" where
  "py_repr PNone = ''None''"
| "py_repr (PBool b) = (if b then ''True'' else ''False'')"
| "py_repr (PInt n) = str_int n"
| "py_repr (PStr s) = repr_str s"
| "py_repr (PList xs) = ''['' @ join '', '' (map py_repr xs) @ '']''"
| "py_repr (PDict kvs) =
     ''{'' @ join '', '' (map (\<lambda>kv. repr_str (fst kv) @ '': '' @ py_repr (snd kv)) kvs) @ ''}''"

fun py_str :: "pyval \<Rightarrow> string" where
  "py_str (PStr s) = s"
| "py_str v = py_repr v"

fun exn_str :: "exn \<Rightarrow> string" where
  "exn_str (KeyError k) = repr_str k"
| "exn_str (TypeError m) = m"
| "exn_str (TimeoutExpired m) = m"
| "exn_str (JSONDecodeError m) = m"
| "exn_str (ValueError m) = m"
| "exn_str (RecursionError m) = m"
| "exn_str (OtherException m) = m"

text \<open>
  \<^verbatim>\<open>repr\<close> as the interpreter runs it, with its two limits. Turning an integer of
  more than \<open>max_digits\<close> decimal digits into text raises \<^verbatim>\<open>ValueError\<close>
  (\<^verbatim>\<open>sys.get_int_max_str_digits()\<close>, 4300 unless configured, 0 for no limit).
  Entering a list or dictionary when no level of nesting is left raises
  \<^verbatim>\<open>RecursionError\<close>; \<open>depth\<close> is the number of levels left. Items are rendered
  in order, and the first exception is the one raised.
\<close>

fun collect :: "(exn + 'a) list \<Rightarrow> exn + 'a list" where
  "collect [] = Inr []"
| "collect (x # xs) =
     (case x of
        Inl e \<Rightarrow> Inl e
      | Inr v \<Rightarrow> (case collect xs of Inl e \<Rightarrow> Inl e | Inr vs \<Rightarrow> Inr (v # vs)))"

definition digits_error :: "nat \<Rightarrow> exn" where
  "digits_error max_digits =
     ValueError (''Exceeds the limit ('' @ digits_nat max_digits
                 @ '' digits) for integer string conversion; ''
                 @ ''use sys.set_int_max_str_digits() to increase the limit'')"

definition depth_error :: exn where
  "depth_error =
     RecursionError ''maximum recursion depth exceeded while getting the repr of an object''"

fun repr_checked :: "nat \<Rightarrow> nat \<Rightarrow> pyval \<Rightarrow> exn + string" where
  "repr_checked max_digits depth PNone = Inr ''None''"
| "repr_checked max_digits depth (PBool b) = Inr (if b then ''True'' else ''False'')"
| "repr_checked max_digits depth (PInt n) =
     (if max_digits \<noteq> 0 \<and> max_digits < length (digits_nat (nat \<bar>n\<bar>))
      then Inl (digits_error max_digits) else Inr (str_int n))"
| "repr_checked max_digits depth (PStr s) = Inr (repr_str s)"
| "repr_checked max_digits depth (PList xs) =
     (if depth = 0 then Inl depth_error
      else case collect (map (repr_checked max_digits (depth - 1)) xs) of
             Inl e \<Rightarrow> Inl e
           | Inr rs \<Rightarrow> Inr (''['' @ join '', '' rs @ '']''))"
| "repr_checked max_digits depth (PDict kvs) =
     (if depth = 0 then Inl depth_error
      else case collect (map (\<lambda>kv. case repr_checked max_digits (depth - 1) (snd kv) of
                                       Inl e \<Rightarrow> Inl e
                                     | Inr r \<Rightarrow> Inr (repr_str (fst kv) @ '': '' @ r)) kvs) of
             Inl e \<Rightarrow> Inl e
           | Inr rs \<Rightarrow> Inr (''{'' @ join '', '' rs @ ''}''))"

subsection \<open>\<^verbatim>\<open>str.strip\<close>\<close>

definition py_isspace :: "char \<Rightarrow> bool" where
  "py_isspace c = ((of_char c :: nat) \<in> {9, 10, 11, 12, 13, 28, 29, 30, 31, 32, 133, 160})"

definition strip :: "string \<Rightarrow> string" where
  "strip s = rev (dropWhile py_isspace (rev (dropWhile py_isspace s)))"

subsection \<open>\<^verbatim>\<open>min(x, k)\<close> with an integer \<open>k\<close>\<close>

text \<open>\<^verbatim>\<open>min(x, k)\<close> keeps \<open>x\<close> unless \<^verbatim>\<open>k < x\<close>; comparing an \<^verbatim>\<open>int\<close> with a
  \<^verbatim>\<open>str\<close>, \<^verbatim>\<open>list\<close>, \<^verbatim>\<open>dict\<close> or \<^verbatim>\<open>None\<close> raises \<^verbatim>\<open>TypeError\<close>.\<close>

definition int_lt :: "int \<Rightarrow> pyval \<Rightarrow> exn + bool" where
  "int_lt k x =
     (case x of
        PInt n \<Rightarrow> Inr (k < n)
      | PBool b \<Rightarrow> Inr (k < (if b then 1 else 0))
      | _ \<Rightarrow> Inl (TypeError ([CHR 0x27] @ ''<'' @ [CHR 0x27]
                 @ '' not supported between instances of '' @ [CHR 0x27] @ ''int'' @ [CHR 0x27]
                 @ '' and '' @ [CHR 0x27] @ type_name x @ [CHR 0x27])))"

definition py_min :: "pyval \<Rightarrow> int \<Rightarrow> exn + pyval" where
  "py_min x k = and_then (int_lt k x) (\<lambda>b. Inr (if b then PInt k else x))"

section \<open>The process runner\<close>

text \<open>
  What \<^verbatim>\<open>subprocess.run(cmd, capture_output=True, text=True, timeout=..., env=...)\<close>
  hands back: a completed process, or an exception (\<^verbatim>\<open>TimeoutExpired\<close> after the
  child was killed, \<^verbatim>\<open>FileNotFoundError\<close>, \<^verbatim>\<open>PermissionError\<close>, ...).
\<close>

record completed_process =
  returncode :: int
  stdout :: string
  stderr :: string

text \<open>
  The surroundings of the server: the resolved binary path \<^verbatim>\<open>CASS_BINARY\<close>, the data
  directory \<^verbatim>\<open>DATA_DIR\<close>, the operating system behind \<^verbatim>\<open>subprocess.run\<close> (command,
  value of the injected \<^verbatim>\<open>CASS_DATA_DIR\<close>, timeout in seconds), the standard
  library's \<^verbatim>\<open>json.loads\<close> and \<^verbatim>\<open>json.dumps\<close> (the latter with its \<^verbatim>\<open>indent\<close>),
  the configured \<^verbatim>\<open>INDEX_INTERVAL_SECONDS\<close>, \<^verbatim>\<open>datetime.isoformat\<close> on clock
  readings (a \<^verbatim>\<open>datetime\<close> is the reading of a clock, a natural number), and the
  interpreter's two limits on \<^verbatim>\<open>repr\<close>: the digit limit for integers and the levels
  of nesting left where \<^verbatim>\<open>call_tool\<close> logs its arguments.
\<close>

record env =
  CASS_BINARY :: string
  DATA_DIR :: string
  subprocess_run :: "string list \<Rightarrow> string \<Rightarrow> int \<Rightarrow> exn + completed_process"
  json_loads :: "string \<Rightarrow> exn + pyval"
  json_dumps :: "nat option \<Rightarrow> pyval \<Rightarrow> string"
  INDEX_INTERVAL_SECONDS :: int
  isoformat :: "nat \<Rightarrow> string"
  int_max_str_digits :: nat
  repr_depth :: nat

text \<open>The body of the \<^verbatim>\<open>try\<close> block of \<^verbatim>\<open>run_cass\<close>: an \<open>Inl\<close> is an exception
  on its way to the \<^verbatim>\<open>except\<close> clauses.\<close>

definition run_cass_try :: "env \<Rightarrow> string list \<Rightarrow> int \<Rightarrow> exn + pyval" where
  "run_cass_try ev cmd timeout =
     (case subprocess_run ev cmd (DATA_DIR ev) timeout of
        Inl e \<Rightarrow> Inl e
      | Inr result \<Rightarrow>
          if returncode result \<noteq> 0 then
            Inr (PDict [(''error'', PBool True),
                        (''exit_code'', PInt (returncode result)),
                        (''stderr'', PStr (strip (stderr result))),
                        (''stdout'', PStr (strip (stdout result)))])
          else
            (case json_loads ev (stdout result) of
               Inr v \<Rightarrow> Inr v
             | Inl (JSONDecodeError m) \<Rightarrow> Inr (PDict [(''output'', PStr (strip (stdout result)))])
             | Inl e \<Rightarrow> Inl e))"

text \<open>\<^verbatim>\<open>run_cass(args: list[str], timeout: int = 30)\<close> with its two handlers.\<close>

definition run_cass :: "env \<Rightarrow> string list \<Rightarrow> int \<Rightarrow> exn + pyval" where
  "run_cass ev args timeout =
     (case run_cass_try ev (CASS_BINARY ev # args) timeout of
        Inr r \<Rightarrow> Inr r
      | Inl (TimeoutExpired m) \<Rightarrow>
          Inr (PDict [(''error'', PBool True),
                      (''message'', PStr (''Command timed out after '' @ str_int timeout @ ''s''))])
      | Inl e \<Rightarrow>
          Inr (PDict [(''error'', PBool True), (''message'', PStr (exn_str e))]))"

section \<open>The tool registry and dispatch\<close>

text \<open>The names of the tools \<^verbatim>\<open>list_tools\<close> registers, in its order.\<close>

definition tool_names :: "string list" where
  "tool_names =
     [''cass_search'', ''cass_stats'', ''cass_capabilities'', ''cass_timeline'',
      ''cass_context'', ''cass_view'', ''cass_expand'', ''cass_export'',
      ''cass_health'', ''cass_index'']"

text \<open>\<^verbatim>\<open>arguments[key]\<close>, \<^verbatim>\<open>arguments.get(key, default)\<close> and
  \<^verbatim>\<open>arguments.get(key)\<close>.\<close>

definition getitem :: "(string \<rightharpoonup> pyval) \<Rightarrow> string \<Rightarrow> exn + pyval" where
  "getitem arguments key = (case arguments key of None \<Rightarrow> Inl (KeyError key) | Some v \<Rightarrow> Inr v)"

definition get_default :: "(string \<rightharpoonup> pyval) \<Rightarrow> string \<Rightarrow> pyval \<Rightarrow> pyval" where
  "get_default arguments key d = (case arguments key of None \<Rightarrow> d | Some v \<Rightarrow> v)"

definition get :: "(string \<rightharpoonup> pyval) \<Rightarrow> string \<Rightarrow> pyval" where
  "get arguments key = get_default arguments key PNone"

text \<open>
  \<^verbatim>\<open>call_tool\<close> puts whatever the caller sent into the argument list, while
  \<^verbatim>\<open>run_cass\<close> is annotated \<^verbatim>\<open>list[str]\<close>. Its first statement logs
  \<^verbatim>\<open>' '.join(cmd)\<close> with \<^verbatim>\<open>cmd = [CASS_BINARY] + args\<close>, before the \<^verbatim>\<open>try\<close>: an
  element that is not a string raises \<^verbatim>\<open>TypeError\<close> there, out of \<^verbatim>\<open>run_cass\<close>
  and into the handler of \<^verbatim>\<open>call_tool\<close>. \<open>str_items i xs\<close> is that check on the
  items from position \<open>i\<close> on.
\<close>

fun str_items :: "nat \<Rightarrow> pyval list \<Rightarrow> exn + string list" where
  "str_items i [] = Inr []"
| "str_items i (PStr s # xs) = and_then (str_items (Suc i) xs) (\<lambda>ss. Inr (s # ss))"
| "str_items i (x # xs) =
     Inl (TypeError (''sequence item '' @ str_int (int i) @ '': expected str instance, ''
                     @ type_name x @ '' found''))"

definition call_run_cass :: "env \<Rightarrow> pyval list \<Rightarrow> int \<Rightarrow> exn + pyval" where
  "call_run_cass ev args timeout = and_then (str_items 1 args) (\<lambda>ss. run_cass ev ss timeout)"

text \<open>
  The argument lists the branches of \<^verbatim>\<open>call_tool\<close> build. Where the source reads
  \<^verbatim>\<open>arguments[k]\<close> under \<^verbatim>\<open>if arguments.get(k):\<close> the key is present and both
  reads give the same value, written \<open>get arguments k\<close> here.
\<close>

definition cass_search_args :: "(string \<rightharpoonup> pyval) \<Rightarrow> exn + pyval list" where
  "cass_search_args arguments =
     and_then (getitem arguments ''query'') (\<lambda>query.
       let args = [PStr ''search'', query, PStr ''--json''];
           args = (if truthy (get arguments ''agent'')
                   then args @ [PStr ''--agent'', get arguments ''agent''] else args);
           args = (if truthy (get arguments ''workspace'')
                   then args @ [PStr ''--workspace'', get arguments ''workspace''] else args)
       in and_then
            (if truthy (get arguments ''limit'')
             then and_then (py_min (get arguments ''limit'') 100)
                    (\<lambda>m. Inr (args @ [PStr ''--limit'', PStr (py_str m)]))
             else Inr args)
            (\<lambda>args.
               let args = (if truthy (get arguments ''days'')
                           then args @ [PStr ''--days'', PStr (py_str (get arguments ''days''))]
                           else args);
                   args = (if truthy (get arguments ''today'')
                           then args @ [PStr ''--today''] else args);
                   args = (if truthy (get arguments ''highlight'')
                           then args @ [PStr ''--highlight''] else args)
               in Inr args))"

definition cass_timeline_args :: "(string \<rightharpoonup> pyval) \<Rightarrow> pyval list" where
  "cass_timeline_args arguments =
     (let args = [PStr ''timeline'', PStr ''--json''];
          args = (if truthy (get arguments ''today'') then args @ [PStr ''--today'']
                  else if truthy (get arguments ''days'')
                  then args @ [PStr ''--days'', PStr (py_str (get arguments ''days''))]
                  else args @ [PStr ''--days'', PStr ''7'']);
          args = (if truthy (get arguments ''group_by'')
                  then args @ [PStr ''--group-by'', get arguments ''group_by''] else args);
          args = (if truthy (get arguments ''agent'')
                  then args @ [PStr ''--agent'', get arguments ''agent''] else args)
      in args)"

definition cass_context_args :: "(string \<rightharpoonup> pyval) \<Rightarrow> exn + pyval list" where
  "cass_context_args arguments =
     and_then (getitem arguments ''path'') (\<lambda>path.
       let args = [PStr ''context'', path, PStr ''--json''];
           args = (if truthy (get arguments ''limit'')
                   then args @ [PStr ''--limit'', PStr (py_str (get arguments ''limit''))]
                   else args)
       in Inr args)"

definition cass_view_args :: "(string \<rightharpoonup> pyval) \<Rightarrow> exn + pyval list" where
  "cass_view_args arguments =
     and_then (getitem arguments ''path'') (\<lambda>path.
       let args = [PStr ''view'', path, PStr ''--json''];
           args = (if truthy (get arguments ''line'')
                   then args @ [PStr ''-n'', PStr (py_str (get arguments ''line''))] else args);
           args = (if truthy (get arguments ''context'')
                   then args @ [PStr ''-C'', PStr (py_str (get arguments ''context''))] else args)
       in Inr args)"

definition cass_expand_args :: "(string \<rightharpoonup> pyval) \<Rightarrow> exn + pyval list" where
  "cass_expand_args arguments =
     and_then (getitem arguments ''path'') (\<lambda>path.
     and_then (getitem arguments ''line'') (\<lambda>line.
       let args = [PStr ''expand'', path, PStr ''-n'', PStr (py_str line), PStr ''--json''];
           args = (if truthy (get arguments ''context'')
                   then args @ [PStr ''-C'', PStr (py_str (get arguments ''context''))] else args)
       in Inr args))"

definition cass_export_args :: "(string \<rightharpoonup> pyval) \<Rightarrow> exn + pyval list" where
  "cass_export_args arguments =
     and_then (getitem arguments ''path'') (\<lambda>path.
       let args = [PStr ''export'', path];
           fmt = get_default arguments ''format'' (PStr ''markdown'');
           args = args @ [PStr ''--format'', fmt]
       in Inr args)"

definition cass_index_args :: "(string \<rightharpoonup> pyval) \<Rightarrow> pyval list" where
  "cass_index_args arguments =
     (let args = [PStr ''index''];
          args = (if truthy (get arguments ''full'') then args @ [PStr ''--full''] else args)
      in args)"

text \<open>The \<^verbatim>\<open>try\<close> block of \<^verbatim>\<open>call_tool\<close> up to the value of \<^verbatim>\<open>result\<close>.\<close>

definition dispatch :: "env \<Rightarrow> string \<Rightarrow> (string \<rightharpoonup> pyval) \<Rightarrow> exn + pyval" where
  "dispatch ev name arguments =
     (if name = ''cass_search'' then
        and_then (cass_search_args arguments) (\<lambda>args. call_run_cass ev args 30)
      else if name = ''cass_stats'' then
        call_run_cass ev [PStr ''stats'', PStr ''--json''] 30
      else if name = ''cass_capabilities'' then
        call_run_cass ev [PStr ''capabilities'', PStr ''--json''] 30
      else if name = ''cass_timeline'' then
        call_run_cass ev (cass_timeline_args arguments) 30
      else if name = ''cass_context'' then
        and_then (cass_context_args arguments) (\<lambda>args. call_run_cass ev args 30)
      else if name = ''cass_view'' then
        and_then (cass_view_args arguments) (\<lambda>args. call_run_cass ev args 30)
      else if name = ''cass_expand'' then
        and_then (cass_expand_args arguments) (\<lambda>args. call_run_cass ev args 30)
      else if name = ''cass_export'' then
        and_then (cass_export_args arguments) (\<lambda>args. call_run_cass ev args 60)
      else if name = ''cass_health'' then
        call_run_cass ev [PStr ''health'', PStr ''--json''] 30
      else if name = ''cass_index'' then
        call_run_cass ev (cass_index_args arguments) 300
      else
        Inr (PDict [(''error'', PBool True), (''message'', PStr (''Unknown tool: '' @ name))]))"

datatype text_content = TextContent (content_type: string) (content_text: string)

text \<open>
  The first statement of \<^verbatim>\<open>call_tool\<close>, before its \<^verbatim>\<open>try\<close>:
  \<^verbatim>\<open>logger.info(f"Tool call: {name} with args: {arguments}")\<close>. The f-string
  renders the dictionary with \<^verbatim>\<open>repr\<close>, which raises for an integer beyond the
  digit limit and for nesting beyond the levels left.
\<close>

definition log_line :: "env \<Rightarrow> string \<Rightarrow> (string \<times> pyval) list \<Rightarrow> exn + string" where
  "log_line ev name arguments =
     (case repr_checked (int_max_str_digits ev) (repr_depth ev) (PDict arguments) of
        Inl e \<Rightarrow> Inl e
      | Inr r \<Rightarrow> Inr (''Tool call: '' @ name @ '' with args: '' @ r))"

text \<open>
  \<^verbatim>\<open>call_tool(name, arguments)\<close>. The arguments are a dictionary: its items in
  insertion order, the keys distinct, looked up with \<open>map_of\<close>. An exception of the
  log line leaves \<^verbatim>\<open>call_tool\<close>; after it, the result is serialised with
  \<^verbatim>\<open>indent=2\<close>, or the handler's error object without indentation.
\<close>

definition call_tool :: "env \<Rightarrow> string \<Rightarrow> (string \<times> pyval) list \<Rightarrow> exn + text_content list" where
  "call_tool ev name arguments =
     (case log_line ev name arguments of
        Inl e \<Rightarrow> Inl e
      | Inr line \<Rightarrow>
          (case dispatch ev name (map_of arguments) of
             Inr result \<Rightarrow> Inr [TextContent ''text'' (json_dumps ev (Some 2) result)]
           | Inl e \<Rightarrow>
               Inr [TextContent ''text''
                      (json_dumps ev None
                         (PDict [(''error'', PBool True), (''message'', PStr (exn_str e))]))]))"

section \<open>The background indexer\<close>

text \<open>The fields of \<^verbatim>\<open>BackgroundIndexer\<close>. A \<^verbatim>\<open>Popen\<close> handle is the pid of its
  child, a \<^verbatim>\<open>Thread\<close> handle the id of its thread.\<close>

record indexer =
  cass_binary :: string
  data_dir :: string
  watch_process :: "nat option"
  periodic_thread :: "nat option"
  stop_event :: bool
  last_index_time :: "nat option"
  index_count :: nat
  is_running :: bool

definition new_indexer :: "string \<Rightarrow> string \<Rightarrow> indexer" where
  "new_indexer binary dir =
     \<lparr>cass_binary = binary, data_dir = dir, watch_process = None, periodic_thread = None,
      stop_event = False, last_index_time = None, index_count = 0, is_running = False\<rparr>"

text \<open>\<^verbatim>\<open>_run_index(full)\<close>, with \<open>now\<close> what \<^verbatim>\<open>datetime.now()\<close> reads. Both
  \<^verbatim>\<open>except\<close> clauses only log.\<close>

definition run_index :: "env \<Rightarrow> nat \<Rightarrow> bool \<Rightarrow> indexer \<Rightarrow> indexer" where
  "run_index ev now full self =
     (let cmd = [cass_binary self, ''index''];
          cmd = (if full then cmd @ [''--full''] else cmd)
      in case subprocess_run ev cmd (data_dir self) 300 of
           Inr result \<Rightarrow>
             self\<lparr>last_index_time := Some now, index_count := index_count self + 1\<rparr>
         | Inl e \<Rightarrow> self)"

subsection \<open>The indexer among its threads and child processes\<close>

text \<open>
  The monitor thread, the periodic thread, the threads of \<^verbatim>\<open>trigger_index\<close> and a
  caller of \<^verbatim>\<open>stop\<close> run concurrently on the same object. Each is cut into the
  steps between which another thread can run; a program counter says where it is.

  \<^verbatim>\<open>_monitor_watch_process\<close>: \<open>MEntry\<close> tests \<^verbatim>\<open>if not self._watch_process\<close>,
  \<open>MLoop\<close> the loop condition, \<open>MPoll\<close> calls \<^verbatim>\<open>poll()\<close>, \<open>MExited\<close> reads
  stderr, logs and tests the stop event, \<open>MBackoff\<close> is \<^verbatim>\<open>time.sleep(5)\<close>,
  \<open>MRestart\<close> calls \<^verbatim>\<open>_start_watch_mode()\<close>, \<open>MSleep\<close> is \<^verbatim>\<open>time.sleep(10)\<close>.

  Two of these steps can meet an exception. \<^verbatim>\<open>subprocess.Popen\<close> may raise in
  \<open>MRestart\<close>, which \<^verbatim>\<open>_start_watch_mode\<close> handles by falling back to periodic
  indexing. \<^verbatim>\<open>self._watch_process.stderr.read()\<close> in \<open>MExited\<close> reads a pipe opened
  with \<^verbatim>\<open>text=True\<close> and raises \<^verbatim>\<open>UnicodeDecodeError\<close> on bytes that do not
  decode; \<^verbatim>\<open>_monitor_watch_process\<close> has no handler, so the thread ends there. A
  read that blocks is a monitor that does not take its step.
\<close>

datatype monitor_pc = MEntry | MLoop | MPoll | MExited | MBackoff | MRestart | MSleep | MDone

datatype fault = NoFault | PopenRaises | ReadRaises

fun fault_applies :: "fault \<Rightarrow> monitor_pc \<Rightarrow> bool" where
  "fault_applies NoFault pc = True"
| "fault_applies PopenRaises pc = (pc = MRestart)"
| "fault_applies ReadRaises pc = (pc = MExited)"

text \<open>\<^verbatim>\<open>_periodic_index_loop\<close>: \<open>PLoop\<close> is the loop condition, \<open>PWait\<close> the
  interruptible wait, \<open>PCheck\<close> the test before the index pass.\<close>

datatype periodic_pc = PLoop | PWait | PCheck | PDone

text \<open>\<open>Manual full done\<close> is a thread of \<^verbatim>\<open>trigger_index(full)\<close>.\<close>

datatype thread = Monitor monitor_pc | Periodic periodic_pc | Manual bool bool

text \<open>\<^verbatim>\<open>stop\<close>: \<open>SSet\<close> sets the event, \<open>SFlag\<close> clears \<^verbatim>\<open>_is_running\<close>,
  \<open>SCheck\<close> tests the handle and \<^verbatim>\<open>poll()\<close>, then \<^verbatim>\<open>terminate()\<close>,
  \<^verbatim>\<open>wait(timeout=5)\<close> and, on \<^verbatim>\<open>TimeoutExpired\<close>, \<^verbatim>\<open>kill()\<close>. After
  \<^verbatim>\<open>kill()\<close> the code neither waits nor polls: the signal is sent, \<^verbatim>\<open>stop\<close>
  returns, and the child exits in a later step of its own.\<close>

datatype stop_pc = SSet | SFlag | SCheck | STerminate | SWait | SKill | SDone

text \<open>A child process is running or has exited with a code (what \<^verbatim>\<open>poll()\<close>
  tells).\<close>

datatype pstate = Running | Exited int

text \<open>The watch children ever launched (the pid is the position), the threads ever
  started (likewise), the caller of \<^verbatim>\<open>stop\<close> if there is one, and the clock.\<close>

record system =
  background_indexer :: indexer
  procs :: "pstate list"
  threads :: "thread list"
  stopping :: "stop_pc option"
  clock :: nat

definition initial_system :: "env \<Rightarrow> system" where
  "initial_system ev =
     \<lparr>background_indexer = new_indexer (CASS_BINARY ev) (DATA_DIR ev),
      procs = [], threads = [], stopping = None, clock = 0\<rparr>"

definition alive :: "system \<Rightarrow> nat \<Rightarrow> bool" where
  "alive s pid = (pid < length (procs s) \<and> procs s ! pid = Running)"

definition set_proc :: "nat \<Rightarrow> pstate \<Rightarrow> system \<Rightarrow> system" where
  "set_proc pid st s = s\<lparr>procs := (procs s)[pid := st]\<rparr>"

definition set_thread :: "nat \<Rightarrow> thread \<Rightarrow> system \<Rightarrow> system" where
  "set_thread tid th s = s\<lparr>threads := (threads s)[tid := th]\<rparr>"

definition index_pass :: "env \<Rightarrow> bool \<Rightarrow> system \<Rightarrow> system" where
  "index_pass ev full s =
     s\<lparr>background_indexer := run_index ev (clock s) full (background_indexer s),
       clock := Suc (clock s)\<rparr>"

definition start_periodic_indexing :: "system \<Rightarrow> system" where
  "start_periodic_indexing s =
     s\<lparr>background_indexer := (background_indexer s)\<lparr>periodic_thread := Some (length (threads s))\<rparr>,
       threads := threads s @ [Periodic PLoop]\<rparr>"

text \<open>\<^verbatim>\<open>_start_watch_mode\<close>; \<open>popen_ok\<close> says whether \<^verbatim>\<open>subprocess.Popen\<close> launches
  the child or raises.\<close>

definition start_watch_mode :: "bool \<Rightarrow> system \<Rightarrow> system" where
  "start_watch_mode popen_ok s =
     (if popen_ok then
        s\<lparr>background_indexer := (background_indexer s)\<lparr>watch_process := Some (length (procs s))\<rparr>,
          procs := procs s @ [Running],
          threads := threads s @ [Monitor MEntry]\<rparr>
      else start_periodic_indexing s)"

definition start :: "env \<Rightarrow> bool \<Rightarrow> bool \<Rightarrow> bool \<Rightarrow> system \<Rightarrow> system" where
  "start ev popen_ok use_watch_mode initial_index s =
     (if is_running (background_indexer s) then s
      else
        let s = s\<lparr>background_indexer :=
                    (background_indexer s)\<lparr>is_running := True, stop_event := False\<rparr>\<rparr>;
            s = (if initial_index then index_pass ev False s else s)
        in if use_watch_mode then start_watch_mode popen_ok s else start_periodic_indexing s)"

definition monitor_step :: "fault \<Rightarrow> nat \<Rightarrow> monitor_pc \<Rightarrow> system \<Rightarrow> system option" where
  "monitor_step fault tid pc s =
     (if \<not> fault_applies fault pc then None else
      case pc of
        MEntry \<Rightarrow>
          Some (set_thread tid
                  (Monitor (if watch_process (background_indexer s) = None then MDone else MLoop)) s)
      | MLoop \<Rightarrow>
          Some (set_thread tid
                  (Monitor (if stop_event (background_indexer s) then MDone else MPoll)) s)
      | MPoll \<Rightarrow>
          (case watch_process (background_indexer s) of
             None \<Rightarrow> Some (set_thread tid (Monitor MDone) s)
           | Some pid \<Rightarrow>
               Some (set_thread tid (Monitor (if alive s pid then MSleep else MExited)) s))
      | MExited \<Rightarrow>
          if fault = ReadRaises then Some (set_thread tid (Monitor MDone) s)
          else
            Some (set_thread tid
                    (Monitor (if \<not> stop_event (background_indexer s) then MBackoff else MDone)) s)
      | MBackoff \<Rightarrow> Some (set_thread tid (Monitor MRestart) s)
      | MRestart \<Rightarrow>
          Some (start_watch_mode (fault \<noteq> PopenRaises) (set_thread tid (Monitor MDone) s))
      | MSleep \<Rightarrow> Some (set_thread tid (Monitor MLoop) s)
      | MDone \<Rightarrow> None)"

definition periodic_step :: "env \<Rightarrow> nat \<Rightarrow> periodic_pc \<Rightarrow> system \<Rightarrow> system option" where
  "periodic_step ev tid pc s =
     (case pc of
        PLoop \<Rightarrow>
          Some (set_thread tid
                  (Periodic (if stop_event (background_indexer s) then PDone else PWait)) s)
      | PWait \<Rightarrow>
          Some (set_thread tid
                  (Periodic (if stop_event (background_indexer s) then PDone else PCheck)) s)
      | PCheck \<Rightarrow>
          Some (set_thread tid (Periodic PLoop)
                  (if \<not> stop_event (background_indexer s) then index_pass ev False s else s))
      | PDone \<Rightarrow> None)"

definition stop_step :: "int option \<Rightarrow> stop_pc \<Rightarrow> system \<Rightarrow> system option" where
  "stop_step exits pc s =
     (case pc of
        SSet \<Rightarrow>
          Some (s\<lparr>background_indexer := (background_indexer s)\<lparr>stop_event := True\<rparr>,
                  stopping := Some SFlag\<rparr>)
      | SFlag \<Rightarrow>
          Some (s\<lparr>background_indexer := (background_indexer s)\<lparr>is_running := False\<rparr>,
                  stopping := Some SCheck\<rparr>)
      | SCheck \<Rightarrow>
          (case watch_process (background_indexer s) of
             None \<Rightarrow> Some (s\<lparr>stopping := Some SDone\<rparr>)
           | Some pid \<Rightarrow>
               Some (s\<lparr>stopping := Some (if alive s pid then STerminate else SDone)\<rparr>))
      | STerminate \<Rightarrow> Some (s\<lparr>stopping := Some SWait\<rparr>)
      | SWait \<Rightarrow>
          (case watch_process (background_indexer s) of
             None \<Rightarrow> Some (s\<lparr>stopping := Some SDone\<rparr>)
           | Some pid \<Rightarrow>
               if \<not> alive s pid then Some (s\<lparr>stopping := Some SDone\<rparr>)
               else (case exits of
                       Some code \<Rightarrow> Some (set_proc pid (Exited code) (s\<lparr>stopping := Some SDone\<rparr>))
                     | None \<Rightarrow> Some (s\<lparr>stopping := Some SKill\<rparr>)))
      | SKill \<Rightarrow> Some (s\<lparr>stopping := Some SDone\<rparr>)
      | SDone \<Rightarrow> None)"

text \<open>
  What can happen next: a thread takes its step (without an exception, with
  \<^verbatim>\<open>Popen\<close> raising in a restart, or with the read of stderr raising after an
  exit), somebody calls \<^verbatim>\<open>stop()\<close> or
  \<^verbatim>\<open>trigger_index(full)\<close>, the caller of \<^verbatim>\<open>stop\<close> takes its step (the child, if
  waited for, exiting with a code within the five seconds or not at all), or a running
  child exits on its own.
\<close>

datatype action =
    Thread nat
  | ThreadPopenFails nat
  | ThreadReadFails nat
  | CallStop
  | StopStep "int option"
  | Trigger bool
  | ChildExits nat int

definition thread_step :: "env \<Rightarrow> fault \<Rightarrow> nat \<Rightarrow> system \<Rightarrow> system option" where
  "thread_step ev fault tid s =
     (if tid < length (threads s) then
        (case threads s ! tid of
           Monitor pc \<Rightarrow> monitor_step fault tid pc s
         | Periodic pc \<Rightarrow> if fault = NoFault then periodic_step ev tid pc s else None
         | Manual full done \<Rightarrow>
             if done \<or> fault \<noteq> NoFault then None
             else Some (set_thread tid (Manual full True) (index_pass ev full s)))
      else None)"

definition step :: "env \<Rightarrow> action \<Rightarrow> system \<Rightarrow> system option" where
  "step ev a s =
     (case a of
        Thread tid \<Rightarrow> thread_step ev NoFault tid s
      | ThreadPopenFails tid \<Rightarrow> thread_step ev PopenRaises tid s
      | ThreadReadFails tid \<Rightarrow> thread_step ev ReadRaises tid s
      | CallStop \<Rightarrow>
          (case stopping s of
             None \<Rightarrow> Some (s\<lparr>stopping := Some SSet\<rparr>)
           | Some pc \<Rightarrow> if pc = SDone then Some (s\<lparr>stopping := Some SSet\<rparr>) else None)
      | StopStep exits \<Rightarrow>
          (case stopping s of None \<Rightarrow> None | Some pc \<Rightarrow> stop_step exits pc s)
      | Trigger full \<Rightarrow> Some (s\<lparr>threads := threads s @ [Manual full False]\<rparr>)
      | ChildExits pid code \<Rightarrow>
          if alive s pid then Some (set_proc pid (Exited code) s) else None)"

fun run :: "env \<Rightarrow> action list \<Rightarrow> system \<Rightarrow> system option" where
  "run ev [] s = Some s"
| "run ev (a # as) s = (case step ev a s of None \<Rightarrow> None | Some s' \<Rightarrow> run ev as s')"

text \<open>\<^verbatim>\<open>get_status\<close>.\<close>

definition watch_running :: "system \<Rightarrow> bool" where
  "watch_running s =
     (case watch_process (background_indexer s) of None \<Rightarrow> False | Some pid \<Rightarrow> alive s pid)"

definition periodic_running :: "system \<Rightarrow> bool" where
  "periodic_running s =
     (case periodic_thread (background_indexer s) of
        None \<Rightarrow> False
      | Some tid \<Rightarrow> tid < length (threads s) \<and> threads s ! tid \<noteq> Periodic PDone)"

definition get_status :: "env \<Rightarrow> system \<Rightarrow> (string \<times> pyval) list" where
  "get_status ev s =
     [(''is_running'', PBool (is_running (background_indexer s))),
      (''mode'', PStr (if watch_running s then ''watch''
                       else if periodic_running s then ''periodic'' else ''stopped'')),
      (''watch_pid'', case watch_process (background_indexer s) of
                        Some pid \<Rightarrow> if watch_running s then PInt (int pid) else PNone
                      | None \<Rightarrow> PNone),
      (''last_index_time'', case last_index_time (background_indexer s) of
                              Some t \<Rightarrow> PStr (isoformat ev t) | None \<Rightarrow> PNone),
      (''index_count'', PInt (int (index_count (background_indexer s)))),
      (''index_interval_seconds'', if periodic_running s
                                   then PInt (INDEX_INTERVAL_SECONDS ev) else PNone)]"

text \<open>Some watch child is running.\<close>

definition live_watch_child :: "system \<Rightarrow> bool" where
  "live_watch_child s = (Running \<in> set (procs s))"

text \<open>Watch mode is under way: thread \<open>tid\<close> is a monitor that has not yet seen its
  child exit (at its entry test, its loop condition, its \<^verbatim>\<open>poll()\<close> or in its ten
  seconds of sleep), the child behind the current handle runs, and nobody has asked for
  a stop.\<close>

definition monitored :: "nat \<Rightarrow> system \<Rightarrow> bool" where
  "monitored tid s =
     (tid < length (threads s) \<and>
      threads s ! tid \<in> {Monitor MEntry, Monitor MLoop, Monitor MPoll, Monitor MSleep} \<and>
      watch_running s \<and> \<not> stop_event (background_indexer s))"

text \<open>The steps a monitor takes from where it is to the end of the restart, once its
  child has exited: up to the \<^verbatim>\<open>poll()\<close> that sees the exit, then the handling of
  the exit, the five seconds of backoff, and \<^verbatim>\<open>_start_watch_mode()\<close>.\<close>

fun restart_steps :: "thread \<Rightarrow> nat \<Rightarrow> action list" where
  "restart_steps (Monitor MEntry) tid =
     [Thread tid, Thread tid, Thread tid, Thread tid, Thread tid, Thread tid]"
| "restart_steps (Monitor MSleep) tid =
     [Thread tid, Thread tid, Thread tid, Thread tid, Thread tid, Thread tid]"
| "restart_steps (Monitor MLoop) tid = [Thread tid, Thread tid, Thread tid, Thread tid, Thread tid]"
| "restart_steps (Monitor MPoll) tid = [Thread tid, Thread tid, Thread tid, Thread tid]"
| "restart_steps th tid = []"

text \<open>
  The watch child dying again and again, once for each exit code of the list: the
  child exits and the monitor \<open>tid\<close> goes on to the end of its restart; the next exit
  is then watched by the monitor that the restart started.
\<close>

fun crash_restarts :: "env \<Rightarrow> int list \<Rightarrow> nat \<Rightarrow> system \<Rightarrow> system option" where
  "crash_restarts ev [] tid s = Some s"
| "crash_restarts ev (code # codes) tid s =
     (case watch_process (background_indexer s) of
        None \<Rightarrow> None
      | Some pid \<Rightarrow>
          if tid < length (threads s) then
            (case run ev (ChildExits pid code # restart_steps (threads s ! tid) tid) s of
               None \<Rightarrow> None
             | Some s' \<Rightarrow> crash_restarts ev codes (length (threads s)) s')
          else None)"

text \<open>
  A caller going through \<^verbatim>\<open>stop()\<close> with no other thread in between: three steps to
  the test of the handle, then, with a running child, \<^verbatim>\<open>terminate()\<close> and
  \<^verbatim>\<open>wait(timeout=5)\<close>, and \<^verbatim>\<open>kill()\<close> if the child did not exit in time
  (\<open>exits = None\<close>).
\<close>

definition stop_schedule :: "bool \<Rightarrow> int option \<Rightarrow> action list" where
  "stop_schedule child_runs exits =
     [CallStop, StopStep exits, StopStep exits, StopStep exits] @
     (if child_runs
      then [StopStep exits, StopStep exits] @
           (case exits of None \<Rightarrow> [StopStep exits] | Some code \<Rightarrow> [])
      else [])"

section \<open>Notions for the statements, and example surroundings\<close>

text \<open>The keys of a returned dictionary.\<close>

definition result_keys :: "exn + pyval \<Rightarrow> string list" where
  "result_keys r = (case r of Inr (PDict kvs) \<Rightarrow> map fst kvs | _ \<Rightarrow> [])"

text \<open>Whether flag \<open>a\<close> is directly followed by value \<open>b\<close> in an argument list.\<close>

fun flag_with :: "'a \<Rightarrow> 'a \<Rightarrow> 'a list \<Rightarrow> bool" where
  "flag_with a b (x # y # xs) = ((x = a \<and> y = b) \<or> flag_with a b (y # xs))"
| "flag_with a b xs = False"

text \<open>An environment in which every child process ends the same given way, with the
  interpreter's default limits, a decoder that knows one document and refuses, as
  \<^verbatim>\<open>json.loads\<close> does with \<^verbatim>\<open>ValueError\<close>, a number of more than 4300 digits,
  and an encoder that writes \<^verbatim>\<open>repr\<close> (for a list of integers, what
  \<^verbatim>\<open>json.dumps\<close> writes).\<close>

definition example_loads :: "string \<Rightarrow> exn + pyval" where
  "example_loads s =
     (if s = ''[1, 2]'' then Inr (PList [PInt 1, PInt 2])
      else if 4300 < length s \<and> set s \<subseteq> set ''123456789''
      then Inl (digits_error 4300)
      else Inl (JSONDecodeError ''Expecting value''))"

definition example_env :: "(exn + completed_process) \<Rightarrow> env" where
  "example_env outcome =
     \<lparr>CASS_BINARY = ''/app/cass'', DATA_DIR = ''/root/.cass'',
      subprocess_run = (\<lambda>cmd dir timeout. outcome),
      json_loads = example_loads,
      json_dumps = (\<lambda>indent v. py_repr v),
      INDEX_INTERVAL_SECONDS = 300,
      isoformat = (\<lambda>t. str_int (int t)),
      int_max_str_digits = 4300,
      repr_depth = 900\<rparr>"

text \<open>The indexer in watch mode: started with \<^verbatim>\<open>use_watch_mode=True\<close> and without
  an initial index pass, the monitor past its entry test.\<close>

definition watching_system :: system where
  "watching_system =
     \<lparr>background_indexer =
        (new_indexer ''/app/cass'' ''/root/.cass'')\<lparr>watch_process := Some 0, is_running := True\<rparr>,
      procs = [Running], threads = [Monitor MLoop], stopping = None, clock = 0\<rparr>"

text \<open>What is left of it once the child has exited and the monitor has ended: the
  handle of the dead child, no live thread.\<close>

definition abandoned_system :: system where
  "abandoned_system =
     \<lparr>background_indexer =
        (new_indexer ''/app/cass'' ''/root/.cass'')\<lparr>watch_process := Some 0, is_running := True\<rparr>,
      procs = [Exited 1], threads = [Monitor MDone], stopping = None, clock = 0\<rparr>"

text \<open>The arguments \<^verbatim>\<open>{"n": 10 ** 4300}\<close>, an integer of 4301 digits, and a standard
  output that is a number of 4301 digits.\<close>

definition huge_arguments :: "(string \<times> pyval) list" where
  "huge_arguments = [(''n'', PInt (10 ^ 4300))]"


section \<open>Decimal rendering\<close>

lemma digit_decode: "n < 10 \<Longrightarrow> (of_char (''0123456789'' ! n) :: nat) - 48 = n"
proof -
  assume "n < 10"
  then have "n \<in> {0, 1, 2, 3, 4, 5, 6, 7, 8, 9}" by auto
  then show ?thesis by auto
qed

lemma digit_not_dash: "n < 10 \<Longrightarrow> ''0123456789'' ! n \<noteq> CHR ''-''"
proof -
  assume "n < 10"
  then have "n \<in> {0, 1, 2, 3, 4, 5, 6, 7, 8, 9}" by auto
  then show ?thesis by auto
qed

lemma foldl_snoc_digit:
  "foldl (\<lambda>a c. 10 * a + ((of_char c :: nat) - 48)) 0 (xs @ [c])
     = 10 * foldl (\<lambda>a c. 10 * a + ((of_char c :: nat) - 48)) 0 xs + ((of_char c :: nat) - 48)"
  by simp

lemma digits_nat_decode:
  "foldl (\<lambda>a c. 10 * a + ((of_char c :: nat) - 48)) 0 (digits_nat n) = n"
proof (induction n rule: digits_nat.induct)
  case (1 n)
  show ?case
  proof (cases "n < 10")
    case True
    then show ?thesis by (subst digits_nat.simps) (simp add: digit_decode)
  next
    case False
    have "n mod 10 < 10" by simp
    with False 1 show ?thesis
      by (subst digits_nat.simps) (simp add: digit_decode)
  qed
qed

lemma digits_nat_no_dash: "CHR ''-'' \<notin> set (digits_nat n)"
proof (induction n rule: digits_nat.induct)
  case (1 n)
  show ?case
  proof (cases "n < 10")
    case True
    then show ?thesis using digit_not_dash [of n] by (subst digits_nat.simps) auto
  next
    case False
    have "n mod 10 < 10" by simp
    with False 1 digit_not_dash [of "n mod 10"] show ?thesis
      by (subst digits_nat.simps) auto
  qed
qed

lemma str_int_100: "str_int 100 = ''100''"
  by (simp add: str_int_def digits_nat.simps)

lemma str_int_eq_100: "0 \<le> n \<Longrightarrow> str_int n = ''100'' \<Longrightarrow> n = 100"
proof -
  assume n: "0 \<le> n" and eq: "str_int n = ''100''"
  from n eq have "digits_nat (nat n) = ''100''" by (simp add: str_int_def)
  then have "foldl (\<lambda>a c. 10 * a + ((of_char c :: nat) - 48)) 0 (digits_nat (nat n))
             = foldl (\<lambda>a c. 10 * a + ((of_char c :: nat) - 48)) 0 ''100''" by simp
  then have "nat n = 100" by (simp add: digits_nat_decode)
  with n show ?thesis by simp
qed

lemma str_int_no_dash: "0 \<le> n \<Longrightarrow> CHR ''-'' \<notin> set (str_int n)"
  by (simp add: str_int_def digits_nat_no_dash)

lemma str_int_not_flag:
  assumes "0 \<le> n"
  shows "str_int n \<noteq> ''--json''" "str_int n \<noteq> ''--workspace''" "str_int n \<noteq> ''--limit''"
        "str_int n \<noteq> ''--today''" "str_int n \<noteq> ''--highlight''"
  using str_int_no_dash [OF assms] by auto

lemma digits_nat_nonempty: "digits_nat n \<noteq> []"
  by (subst digits_nat.simps) simp

lemma digits_nat_length: "10 ^ k \<le> n \<Longrightarrow> k < length (digits_nat n)"
proof (induction k arbitrary: n)
  case 0
  show ?case using digits_nat_nonempty [of n] by (cases "digits_nat n") simp_all
next
  case (Suc k)
  have one: "(1::nat) \<le> 10 ^ k" by simp
  from Suc.prems have le: "10 * 10 ^ k \<le> n" by simp
  with one have big: "\<not> n < 10" by linarith
  from le have "10 ^ k \<le> n div 10" by (simp add: less_eq_div_iff_mult_less_eq mult.commute)
  with Suc.IH [of "n div 10"] have "k < length (digits_nat (n div 10))" by simp
  with big show ?case by (subst digits_nat.simps) simp
qed

lemma digits_error_4300:
  "digits_error 4300 =
     ValueError (''Exceeds the limit (4300 digits) for integer string conversion; ''
                 @ ''use sys.set_int_max_str_digits() to increase the limit'')"
  by (simp add: digits_error_def digits_nat.simps)

section \<open>The process runner: results\<close>

text \<open>\<^verbatim>\<open>run_cass\<close> by the way the child process ended.\<close>

lemma run_cass_cases:
  "run_cass ev args timeout =
     (case subprocess_run ev (CASS_BINARY ev # args) (DATA_DIR ev) timeout of
        Inl (TimeoutExpired m) \<Rightarrow>
          Inr (PDict [(''error'', PBool True),
                      (''message'', PStr (''Command timed out after '' @ str_int timeout @ ''s''))])
      | Inl e \<Rightarrow> Inr (PDict [(''error'', PBool True), (''message'', PStr (exn_str e))])
      | Inr result \<Rightarrow>
          if returncode result \<noteq> 0 then
            Inr (PDict [(''error'', PBool True),
                        (''exit_code'', PInt (returncode result)),
                        (''stderr'', PStr (strip (stderr result))),
                        (''stdout'', PStr (strip (stdout result)))])
          else
            (case json_loads ev (stdout result) of
               Inr v \<Rightarrow> Inr v
             | Inl (JSONDecodeError m) \<Rightarrow> Inr (PDict [(''output'', PStr (strip (stdout result)))])
             | Inl (TimeoutExpired m) \<Rightarrow>
                 Inr (PDict [(''error'', PBool True),
                      (''message'', PStr (''Command timed out after '' @ str_int timeout @ ''s''))])
             | Inl e \<Rightarrow> Inr (PDict [(''error'', PBool True), (''message'', PStr (exn_str e))])))"
  by (simp add: run_cass_def run_cass_try_def split: sum.splits exn.splits)

text \<open>
  Claim C1. \<^verbatim>\<open>run_cass\<close> returns a result for every list of argument strings and
  every timeout and never raises: a \<^verbatim>\<open>TimeoutExpired\<close> from the subprocess gives
  the error object with the timeout message, any other exception from launching or
  running it gives the error object with the message of the exception.
\<close>

theorem run_cass_total:
  "\<exists>r. run_cass ev args timeout = Inr r \<and>
     (\<forall>m. subprocess_run ev (CASS_BINARY ev # args) (DATA_DIR ev) timeout = Inl (TimeoutExpired m) \<longrightarrow>
        r = PDict [(''error'', PBool True),
                   (''message'', PStr (''Command timed out after '' @ str_int timeout @ ''s''))]) \<and>
     (\<forall>e. subprocess_run ev (CASS_BINARY ev # args) (DATA_DIR ev) timeout = Inl e \<and>
          (\<forall>m. e \<noteq> TimeoutExpired m) \<longrightarrow>
        r = PDict [(''error'', PBool True), (''message'', PStr (exn_str e))])"
  by (auto simp: run_cass_cases split: sum.splits exn.splits)

theorem run_cass_total_witness:
  "subprocess_run (example_env (Inl (TimeoutExpired ''timed out''))) [''/app/cass'', ''stats'', ''--json''] ''/root/.cass'' 30
     = Inl (TimeoutExpired ''timed out'') \<and>
   run_cass (example_env (Inl (TimeoutExpired ''timed out''))) [''stats'', ''--json''] 30
     = Inr (PDict [(''error'', PBool True), (''message'', PStr ''Command timed out after 30s'')]) \<and>
   run_cass (example_env (Inl (OtherException ''No such file or directory''))) [''stats'', ''--json''] 30
     = Inr (PDict [(''error'', PBool True), (''message'', PStr ''No such file or directory'')])"
  using run_cass_total [of "example_env (Inl (TimeoutExpired ''timed out''))" "[''stats'', ''--json'']" 30]
        run_cass_total [of "example_env (Inl (OtherException ''No such file or directory''))" "[''stats'', ''--json'']" 30]
  by (auto simp: example_env_def str_int_def digits_nat.simps)

text \<open>
  Claim C3. When the child exits with a code other than zero, the result is the error
  object with exactly that code, the stripped stderr and the stripped stdout.
\<close>

theorem nonzero_exit_failure:
  assumes "subprocess_run ev (CASS_BINARY ev # args) (DATA_DIR ev) timeout = Inr result"
    and "returncode result \<noteq> 0"
  shows "run_cass ev args timeout =
           Inr (PDict [(''error'', PBool True),
                       (''exit_code'', PInt (returncode result)),
                       (''stderr'', PStr (strip (stderr result))),
                       (''stdout'', PStr (strip (stdout result)))])"
  using assms by (simp add: run_cass_cases)

theorem nonzero_exit_failure_witness:
  "run_cass (example_env (Inr \<lparr>returncode = 2, stdout = '' partial '', stderr = ''index corrupted''\<rparr>))
      [''search'', ''auth error'', ''--json''] 30 =
     Inr (PDict [(''error'', PBool True), (''exit_code'', PInt 2),
                 (''stderr'', PStr ''index corrupted''), (''stdout'', PStr ''partial'')])"
  using nonzero_exit_failure [of "example_env (Inr \<lparr>returncode = 2, stdout = '' partial '', stderr = ''index corrupted''\<rparr>)"
      "[''search'', ''auth error'', ''--json'']" 30
      "\<lparr>returncode = 2, stdout = '' partial '', stderr = ''index corrupted''\<rparr>"]
  by (simp add: example_env_def strip_def py_isspace_def)





text \<open>
  Claim C6 as stated fails: the failure returned after a timeout has the keys
  \<^verbatim>\<open>error\<close> and \<^verbatim>\<open>message\<close> only, neither \<^verbatim>\<open>stderr\<close> nor \<^verbatim>\<open>stdout\<close>.
\<close>

theorem failure_fields_counterexample:
  "run_cass (example_env (Inl (TimeoutExpired ''timed out''))) [''stats'', ''--json''] 30 =
     Inr (PDict [(''error'', PBool True), (''message'', PStr ''Command timed out after 30s'')]) \<and>
   ''stderr'' \<notin> set (result_keys
       (run_cass (example_env (Inl (TimeoutExpired ''timed out''))) [''stats'', ''--json''] 30)) \<and>
   ''stdout'' \<notin> set (result_keys
       (run_cass (example_env (Inl (TimeoutExpired ''timed out''))) [''stats'', ''--json''] 30))"
  by (simp add: run_cass_cases example_env_def result_keys_def str_int_def digits_nat.simps)

text \<open>
  Claim C6, amended. A failure returned by \<^verbatim>\<open>run_cass\<close> has one of two complete
  shapes: after a non-zero exit exactly the keys \<^verbatim>\<open>error\<close>, \<^verbatim>\<open>exit_code\<close>,
  \<^verbatim>\<open>stderr\<close>, \<^verbatim>\<open>stdout\<close>; after a timeout or any other exception exactly the
  keys \<^verbatim>\<open>error\<close> and \<^verbatim>\<open>message\<close>.
\<close>

theorem failure_shapes:
  "(\<forall>result. subprocess_run ev (CASS_BINARY ev # args) (DATA_DIR ev) timeout = Inr result \<and>
        returncode result \<noteq> 0 \<longrightarrow>
      result_keys (run_cass ev args timeout) = [''error'', ''exit_code'', ''stderr'', ''stdout'']) \<and>
   (\<forall>e. subprocess_run ev (CASS_BINARY ev # args) (DATA_DIR ev) timeout = Inl e \<longrightarrow>
      result_keys (run_cass ev args timeout) = [''error'', ''message'']) \<and>
   (\<forall>result e. subprocess_run ev (CASS_BINARY ev # args) (DATA_DIR ev) timeout = Inr result \<and>
        returncode result = 0 \<and> json_loads ev (stdout result) = Inl e \<and>
        (\<forall>m. e \<noteq> JSONDecodeError m) \<longrightarrow>
      result_keys (run_cass ev args timeout) = [''error'', ''message''])"
  by (auto simp: run_cass_cases result_keys_def split: exn.splits)

theorem failure_shapes_witness:
  "result_keys (run_cass (example_env (Inr \<lparr>returncode = 2, stdout = '''', stderr = ''index corrupted''\<rparr>))
      [''stats'', ''--json''] 30) = [''error'', ''exit_code'', ''stderr'', ''stdout''] \<and>
   result_keys (run_cass (example_env (Inl (OtherException ''Permission denied'')))
      [''stats'', ''--json''] 30) = [''error'', ''message'']"
  using failure_shapes [of "example_env (Inr \<lparr>returncode = 2, stdout = '''', stderr = ''index corrupted''\<rparr>)"
      "[''stats'', ''--json'']" 30]
    failure_shapes [of "example_env (Inl (OtherException ''Permission denied''))"
      "[''stats'', ''--json'']" 30]
  by (simp add: example_env_def)

section \<open>Dispatch: results\<close>

lemma get_Some: "arguments k = Some v \<Longrightarrow> get arguments k = v"
  by (simp add: get_def get_default_def)

lemma get_None: "arguments k = None \<Longrightarrow> get arguments k = PNone"
  by (simp add: get_def get_default_def)

lemma py_min_above: "100 < n \<Longrightarrow> py_min (PInt n) 100 = Inr (PInt 100)"
  by (simp add: py_min_def int_lt_def and_then_def)

text \<open>Once the log line is written, \<^verbatim>\<open>call_tool\<close> returns one text content whatever
  happens: the serialised error object for a name that is not registered, and for an
  exception raised anywhere in the dispatch.\<close>

lemma call_tool_after_log_line:
  assumes "log_line ev name arguments = Inr line"
  shows "(\<exists>c. call_tool ev name arguments = Inr [c]) \<and>
   (name \<notin> set tool_names \<longrightarrow>
      call_tool ev name arguments =
        Inr [TextContent ''text''
               (json_dumps ev (Some 2)
                  (PDict [(''error'', PBool True),
                          (''message'', PStr (''Unknown tool: '' @ name))]))]) \<and>
   (\<forall>e. dispatch ev name (map_of arguments) = Inl e \<longrightarrow>
      call_tool ev name arguments =
        Inr [TextContent ''text''
               (json_dumps ev None
                  (PDict [(''error'', PBool True), (''message'', PStr (exn_str e))]))])"
proof -
  have total: "\<exists>c. call_tool ev name arguments = Inr [c]"
    using assms by (simp add: call_tool_def split: sum.splits)
  have unknown: "name \<notin> set tool_names \<Longrightarrow>
      dispatch ev name (map_of arguments) =
        Inr (PDict [(''error'', PBool True), (''message'', PStr (''Unknown tool: '' @ name))])"
    by (simp add: dispatch_def tool_names_def)
  show ?thesis
    using total unknown assms by (auto simp: call_tool_def)
qed

lemma log_line_raises: "log_line ev name arguments = Inl e \<Longrightarrow> call_tool ev name arguments = Inl e"
  by (simp add: call_tool_def)

lemma log_line_huge_int:
  assumes "int_max_str_digits ev \<noteq> 0"
    and "int_max_str_digits ev < length (digits_nat (nat \<bar>n\<bar>))"
    and "repr_depth ev \<noteq> 0"
  shows "log_line ev name [(k, PInt n)] = Inl (digits_error (int_max_str_digits ev))"
  using assms by (simp add: log_line_def)

lemma huge_arguments_digits:
  "4300 < length (digits_nat (nat \<bar>(10::int) ^ 4300\<bar>))"
proof -
  have "nat \<bar>(10::int) ^ 4300\<bar> = nat (10 ^ 4300)"
    by (simp only: power_abs abs_numeral)
  also have "\<dots> = (nat 10) ^ 4300" by (rule nat_power_eq) simp
  also have "\<dots> = 10 ^ 4300" by (simp only: nat_numeral)
  finally have eq: "nat \<bar>(10::int) ^ 4300\<bar> = 10 ^ 4300" .
  have "4300 < length (digits_nat (10 ^ 4300))"
    by (rule digits_nat_length) (rule order_refl)
  with eq show ?thesis by (simp only:)
qed

text \<open>
  Claim C2. The code does not do what the claim says for every call: the log line,
  the first statement of \<^verbatim>\<open>call_tool\<close>, is outside the \<^verbatim>\<open>try\<close>, and rendering
  the arguments raises for an integer of more than 4300 digits. The call with the
  unregistered name \<^verbatim>\<open>cass_delete\<close> and the arguments \<^verbatim>\<open>{"n": 10 ** 4300}\<close> raises
  \<^verbatim>\<open>ValueError\<close> to its caller, where the claim promises the error object for an
  unknown tool.
\<close>

theorem call_tool_raises_at_log_line:
  "call_tool (example_env (Inl (OtherException ''unused''))) ''cass_delete'' huge_arguments =
     Inl (ValueError (''Exceeds the limit (4300 digits) for integer string conversion; ''
                      @ ''use sys.set_int_max_str_digits() to increase the limit''))"
proof -
  have lim: "int_max_str_digits (example_env (Inl (OtherException ''unused''))) = 4300"
    and depth: "repr_depth (example_env (Inl (OtherException ''unused''))) \<noteq> 0"
    by (simp_all add: example_env_def)
  have "log_line (example_env (Inl (OtherException ''unused''))) ''cass_delete''
          [(''n'', PInt (10 ^ 4300))] =
        Inl (digits_error (int_max_str_digits (example_env (Inl (OtherException ''unused'')))))"
  proof (rule log_line_huge_int)
    show "int_max_str_digits (example_env (Inl (OtherException ''unused''))) \<noteq> 0"
      by (simp add: lim)
    show "int_max_str_digits (example_env (Inl (OtherException ''unused'')))
            < length (digits_nat (nat \<bar>(10::int) ^ 4300\<bar>))"
      by (simp only: lim) (rule huge_arguments_digits)
    show "repr_depth (example_env (Inl (OtherException ''unused''))) \<noteq> 0"
      by (rule depth)
  qed
  then have "log_line (example_env (Inl (OtherException ''unused''))) ''cass_delete''
               huge_arguments = Inl (digits_error 4300)"
    by (simp only: lim huge_arguments_def)
  then have "call_tool (example_env (Inl (OtherException ''unused''))) ''cass_delete''
               huge_arguments = Inl (digits_error 4300)"
    by (rule log_line_raises)
  then show ?thesis by (simp only: digits_error_4300)
qed

text \<open>
  Claim C5. For a \<^verbatim>\<open>cass_search\<close> call whose \<^verbatim>\<open>limit\<close> is an integer above 100,
  the argument list handed to \<^verbatim>\<open>run_cass\<close> has \<^verbatim>\<open>--limit\<close> directly followed by
  \<^verbatim>\<open>100\<close> and nowhere \<^verbatim>\<open>--limit\<close> directly followed by the supplied value; no
  list is built only when the query is missing.
\<close>

theorem search_limit_clamped:
  assumes "arguments ''limit'' = Some (PInt n)" and "100 < n"
  shows "case cass_search_args arguments of
           Inr args \<Rightarrow>
             dispatch ev ''cass_search'' arguments = call_run_cass ev args 30 \<and>
             flag_with (PStr ''--limit'') (PStr ''100'') args \<and>
             \<not> flag_with (PStr ''--limit'') (PStr (str_int n)) args
         | Inl e \<Rightarrow> arguments ''query'' = None \<and> e = KeyError ''query''"
proof (cases "arguments ''query''")
  case None
  then show ?thesis by (simp add: cass_search_args_def getitem_def and_then_def)
next
  case (Some query)
  from assms have n0: "0 \<le> n" and n100: "str_int n \<noteq> ''100''"
    using str_int_eq_100 [of n] by auto
  note nf = str_int_not_flag [OF n0]
  from assms have lim: "get arguments ''limit'' = PInt n" by (simp add: get_Some)
  show ?thesis
    using Some assms(2) n100 nf
    by (simp add: cass_search_args_def dispatch_def getitem_def and_then_def lim py_min_above
        str_int_100 Let_def)
qed

theorem search_limit_clamped_witness:
  "cass_search_args [''query'' \<mapsto> PStr ''auth error'', ''limit'' \<mapsto> PInt 250] =
     Inr [PStr ''search'', PStr ''auth error'', PStr ''--json'', PStr ''--limit'', PStr ''100''] \<and>
   flag_with (PStr ''--limit'') (PStr ''100'')
     [PStr ''search'', PStr ''auth error'', PStr ''--json'', PStr ''--limit'', PStr ''100''] \<and>
   \<not> flag_with (PStr ''--limit'') (PStr ''250'')
     [PStr ''search'', PStr ''auth error'', PStr ''--json'', PStr ''--limit'', PStr ''100'']"
  using search_limit_clamped
          [of "[''query'' \<mapsto> PStr ''auth error'', ''limit'' \<mapsto> PInt 250]" 250]
  by (simp add: cass_search_args_def getitem_def and_then_def get_def get_default_def
      py_min_def int_lt_def str_int_def digits_nat.simps)

lemma py_str_limit: "py_str v = ''--limit'' \<Longrightarrow> v = PStr ''--limit''"
proof (cases v)
  case (PInt n)
  assume eq: "py_str v = ''--limit''"
  show ?thesis
  proof (cases "n < 0")
    case True
    with eq PInt have "digits_nat (nat (- n)) = ''-limit''" by (simp add: str_int_def)
    then have "CHR ''-'' \<in> set (digits_nat (nat (- n)))" by simp
    then show ?thesis by (simp add: digits_nat_no_dash)
  next
    case False
    then have "CHR ''-'' \<notin> set (str_int n)" by (simp add: str_int_no_dash)
    with eq PInt show ?thesis by simp
  qed
qed (auto split: if_splits)

text \<open>
  Claim C10. For a \<^verbatim>\<open>cass_search\<close> call whose \<^verbatim>\<open>limit\<close> is 0, the argument list
  is the one built for the same call without a \<^verbatim>\<open>limit\<close>: the test is one of
  truthiness, and no \<^verbatim>\<open>--limit\<close> is added. The text \<^verbatim>\<open>--limit\<close> is then in the
  list only if the caller sent it as the query, agent, workspace or days value.
\<close>

theorem zero_limit_no_flag:
  assumes "arguments ''limit'' = Some (PInt 0)"
  shows "cass_search_args arguments = cass_search_args (arguments(''limit'' := None)) \<and>
         (\<forall>args. cass_search_args arguments = Inr args \<and>
            PStr ''--limit'' \<notin> {get arguments ''query'', get arguments ''agent'',
                                  get arguments ''workspace'', get arguments ''days''} \<longrightarrow>
            PStr ''--limit'' \<notin> set args)"
proof -
  from assms have lim: "get arguments ''limit'' = PInt 0" by (simp add: get_Some)
  have eq: "cass_search_args arguments = cass_search_args (arguments(''limit'' := None))"
    by (simp add: cass_search_args_def getitem_def get_def get_default_def assms cong: if_cong)
  have "PStr ''--limit'' \<notin> set args"
    if "cass_search_args arguments = Inr args"
      and "PStr ''--limit'' \<notin> {get arguments ''query'', get arguments ''agent'',
                                  get arguments ''workspace'', get arguments ''days''}" for args
  proof -
    from that(2) have d: "py_str (get arguments ''days'') \<noteq> ''--limit''"
      using py_str_limit [of "get arguments ''days''"] by auto
    from that(1) obtain query where q: "arguments ''query'' = Some query"
      by (cases "arguments ''query''") (auto simp: cass_search_args_def getitem_def and_then_def)
    then have gq: "get arguments ''query'' = query" by (simp add: get_Some)
    from that d q gq show ?thesis
      by (auto simp: cass_search_args_def getitem_def and_then_def lim Let_def split: if_splits)
  qed
  with eq show ?thesis by blast
qed

theorem zero_limit_no_flag_witness:
  "cass_search_args [''query'' \<mapsto> PStr ''auth error'', ''limit'' \<mapsto> PInt 0] =
     Inr [PStr ''search'', PStr ''auth error'', PStr ''--json''] \<and>
   cass_search_args ([''query'' \<mapsto> PStr ''auth error'', ''limit'' \<mapsto> PInt 0](''limit'' := None)) =
     Inr [PStr ''search'', PStr ''auth error'', PStr ''--json''] \<and>
   PStr ''--limit'' \<notin> set [PStr ''search'', PStr ''auth error'', PStr ''--json'']"
  using zero_limit_no_flag [of "[''query'' \<mapsto> PStr ''auth error'', ''limit'' \<mapsto> PInt 0]"]
  by (simp add: cass_search_args_def getitem_def and_then_def get_def get_default_def)

section \<open>The background indexer: results\<close>

lemma run_index_cases:
  "run_index ev now full self =
     (case subprocess_run ev (if full then [cass_binary self, ''index'', ''--full'']
                              else [cass_binary self, ''index'']) (data_dir self) 300 of
        Inr result \<Rightarrow> self\<lparr>last_index_time := Some now, index_count := index_count self + 1\<rparr>
      | Inl e \<Rightarrow> self)"
  by (simp add: run_index_def)

lemma index_pass_watch_running: "watch_running (index_pass ev full s) = watch_running s"
  by (cases "subprocess_run ev (if full then [cass_binary (background_indexer s), ''index'', ''--full'']
                                else [cass_binary (background_indexer s), ''index''])
               (data_dir (background_indexer s)) 300")
     (simp_all add: watch_running_def index_pass_def run_index_cases alive_def
        split: option.splits)

lemma index_pass_periodic_running:
  "periodic_running (index_pass ev full s) = periodic_running s"
  by (cases "subprocess_run ev (if full then [cass_binary (background_indexer s), ''index'', ''--full'']
                                else [cass_binary (background_indexer s), ''index''])
               (data_dir (background_indexer s)) 300")
     (simp_all add: periodic_running_def index_pass_def run_index_cases split: option.splits)

lemma index_pass_indexer:
  "background_indexer (index_pass ev full s) = run_index ev (clock s) full (background_indexer s)"
  by (simp add: index_pass_def)

lemma watching_system_reached:
  "run (example_env outcome) [Thread 0]
     (start (example_env outcome) True True False (initial_system (example_env outcome))) =
   Some watching_system"
  by (simp add: watching_system_def step_def thread_step_def monitor_step_def set_thread_def
      start_watch_mode_def start_def initial_system_def new_indexer_def example_env_def)

lemma crash_cycle:
  assumes "monitored tid s" and "watch_process (background_indexer s) = Some pid"
  shows "\<exists>s'. run ev (ChildExits pid code # restart_steps (threads s ! tid) tid) s = Some s' \<and>
              monitored (length (threads s)) s' \<and>
              watch_process (background_indexer s') = Some (length (procs s)) \<and>
              length (procs s') = Suc (length (procs s)) \<and>
              \<not> alive s' pid"
proof -
  from assms(1) consider
      "threads s ! tid = Monitor MEntry" | "threads s ! tid = Monitor MLoop"
    | "threads s ! tid = Monitor MPoll" | "threads s ! tid = Monitor MSleep"
    by (auto simp: monitored_def)
  then show ?thesis
  proof cases
    case 1
    with assms show ?thesis
      by (simp add: monitored_def watch_running_def step_def thread_step_def monitor_step_def
          set_thread_def set_proc_def alive_def start_watch_mode_def nth_append)
  next
    case 2
    with assms show ?thesis
      by (simp add: monitored_def watch_running_def step_def thread_step_def monitor_step_def
          set_thread_def set_proc_def alive_def start_watch_mode_def nth_append)
  next
    case 3
    with assms show ?thesis
      by (simp add: monitored_def watch_running_def step_def thread_step_def monitor_step_def
          set_thread_def set_proc_def alive_def start_watch_mode_def nth_append)
  next
    case 4
    with assms show ?thesis
      by (simp add: monitored_def watch_running_def step_def thread_step_def monitor_step_def
          set_thread_def set_proc_def alive_def start_watch_mode_def nth_append)
  qed
qed

lemma monitored_mode:
  "monitored tid s \<Longrightarrow> map_of (get_status ev s) ''mode'' = Some (PStr ''watch'')"
  by (simp add: monitored_def get_status_def)

lemma alive_stopping: "alive (s\<lparr>stopping := x\<rparr>) pid = alive s pid"
  by (simp add: alive_def)

lemma alive_indexer: "alive (s\<lparr>background_indexer := b\<rparr>) pid = alive s pid"
  by (simp add: alive_def)

lemma alive_set_proc_exited: "\<not> alive (set_proc pid (Exited code) s) pid"
  by (simp add: alive_def set_proc_def)

lemma set_proc_fields:
  "background_indexer (set_proc pid st s) = background_indexer s"
  "stopping (set_proc pid st s) = stopping s"
  by (simp_all add: set_proc_def)

lemma indexer_stopped_again:
  "stop_event b \<Longrightarrow> \<not> is_running b \<Longrightarrow> b\<lparr>stop_event := True, is_running := False\<rparr> = b"
  by (cases b) simp

lemma stop_undisturbed:
  assumes "stopping s = None" and "watch_running s \<longrightarrow> exits \<noteq> None"
  shows "\<exists>s'. run ev (stop_schedule (watch_running s) exits) s = Some s' \<and>
              stopping s' = Some SDone \<and>
              \<not> watch_running s' \<and>
              stop_event (background_indexer s') \<and>
              \<not> is_running (background_indexer s') \<and>
              watch_process (background_indexer s') = watch_process (background_indexer s)"
proof (cases "watch_process (background_indexer s)")
  case None
  with assms show ?thesis
    by (simp add: stop_schedule_def watch_running_def step_def stop_step_def)
next
  case (Some pid)
  show ?thesis
  proof (cases "alive s pid")
    case False
    with Some assms show ?thesis
      by (simp add: stop_schedule_def watch_running_def step_def stop_step_def
          alive_stopping alive_indexer)
  next
    case True
    with Some assms obtain code where "exits = Some code"
      by (auto simp: watch_running_def)
    with True Some assms show ?thesis
      by (simp add: stop_schedule_def watch_running_def step_def stop_step_def
          alive_stopping alive_indexer alive_set_proc_exited set_proc_fields)
  qed
qed

text \<open>With a child that does not exit on \<^verbatim>\<open>terminate()\<close> within the five seconds,
  \<^verbatim>\<open>stop()\<close> returns right after \<^verbatim>\<open>kill()\<close>, the child not yet gone.\<close>

lemma stop_kill_pending:
  assumes "stopping s = None" and "watch_running s"
  shows "\<exists>s'. run ev (stop_schedule True None) s = Some s' \<and>
              stopping s' = Some SDone \<and> watch_running s' \<and> procs s' = procs s"
proof -
  from assms(2) obtain pid where "watch_process (background_indexer s) = Some pid"
    and "alive s pid"
    by (auto simp: watch_running_def split: option.splits)
  with assms show ?thesis
    by (simp add: stop_schedule_def watch_running_def step_def stop_step_def
        alive_stopping alive_indexer)
qed

lemma stop_twice:
  assumes "stopping s = Some SDone" and "\<not> watch_running s"
    and "stop_event (background_indexer s)" and "\<not> is_running (background_indexer s)"
  shows "\<exists>s'. run ev (stop_schedule (watch_running s) exits) s = Some s' \<and>
              background_indexer s' = background_indexer s \<and> procs s' = procs s \<and>
              threads s' = threads s \<and> stopping s' = Some SDone"
  using assms
  by (cases "watch_process (background_indexer s)")
     (simp_all add: stop_schedule_def watch_running_def step_def stop_step_def
        alive_stopping alive_indexer indexer_stopped_again)

text \<open>
  As long as every step of the monitor goes without an exception: whenever the watch
  child exits while watch mode is under way and no stop was asked for, wherever its
  monitor is at that moment, the monitor goes through its backoff and restarts watch
  mode, and once the child is launched the status reports the mode \<^verbatim>\<open>watch\<close>
  again, with a new running child behind the handle. No count limits this: it holds
  after any number of exits in a row.
\<close>

lemma watch_restart_uncapped:
  assumes "monitored tid s"
  shows "\<exists>s'. crash_restarts ev codes tid s = Some s' \<and>
              map_of (get_status ev s') ''mode'' = Some (PStr ''watch'') \<and>
              length (procs s') = length (procs s) + length codes \<and>
              (codes \<noteq> [] \<longrightarrow>
                 watch_process (background_indexer s') = Some (length (procs s') - 1) \<and>
                 alive s' (length (procs s') - 1))"
  using assms
proof (induction codes arbitrary: tid s)
  case Nil
  then show ?case by (simp add: monitored_mode)
next
  case (Cons code codes)
  from Cons.prems obtain pid where pid: "watch_process (background_indexer s) = Some pid"
    by (auto simp: monitored_def watch_running_def split: option.splits)
  from Cons.prems have tid: "tid < length (threads s)"
    by (simp add: monitored_def)
  from crash_cycle [OF Cons.prems pid, of ev code] obtain s1 where
    run1: "run ev (ChildExits pid code # restart_steps (threads s ! tid) tid) s = Some s1"
    and mon1: "monitored (length (threads s)) s1"
    and wp1: "watch_process (background_indexer s1) = Some (length (procs s))"
    and len1: "length (procs s1) = Suc (length (procs s))"
    by blast
  from Cons.IH [OF mon1] obtain s' where
    rest: "crash_restarts ev codes (length (threads s)) s1 = Some s'"
    and mode: "map_of (get_status ev s') ''mode'' = Some (PStr ''watch'')"
    and len: "length (procs s') = length (procs s1) + length codes"
    and last: "codes \<noteq> [] \<longrightarrow>
                 watch_process (background_indexer s') = Some (length (procs s') - 1) \<and>
                 alive s' (length (procs s') - 1)"
    by blast
  have whole: "crash_restarts ev (code # codes) tid s = Some s'"
    using pid tid run1 rest by simp
  have "watch_process (background_indexer s') = Some (length (procs s') - 1) \<and>
        alive s' (length (procs s') - 1)"
  proof (cases codes)
    case Nil
    with rest have "s' = s1" by simp
    with mon1 wp1 len1 show ?thesis
      by (simp add: monitored_def watch_running_def)
  next
    case (Cons c cs)
    with last show ?thesis by simp
  qed
  with whole mode len len1 show ?case by simp
qed

lemma watch_restart_uncapped_example:
  "monitored 0 watching_system \<and>
   (\<exists>s'. crash_restarts (example_env (Inl (OtherException ''unused''))) [1, - 11, 2] 0
            watching_system = Some s' \<and>
      map_of (get_status (example_env (Inl (OtherException ''unused''))) s') ''mode'' =
        Some (PStr ''watch'') \<and>
      length (procs s') = 4)"
proof -
  have m: "monitored 0 watching_system"
    by (simp add: monitored_def watch_running_def alive_def watching_system_def new_indexer_def)
  have l: "length (procs watching_system) = 1"
    by (simp add: watching_system_def)
  from watch_restart_uncapped
         [OF m, of "example_env (Inl (OtherException ''unused''))" "[1, - 11, 2]"] l m
  show ?thesis by auto
qed

lemma abandoned_system_halts:
  "step ev (Thread tid) abandoned_system = None"
  "step ev (ThreadPopenFails tid) abandoned_system = None"
  "step ev (ThreadReadFails tid) abandoned_system = None"
  by (cases tid; simp add: step_def thread_step_def monitor_step_def abandoned_system_def)+

text \<open>
  Claim C8. The code does not do what the claim says for every exit of the watch
  child. The child writes bytes to its standard error that do not decode and exits
  with code 1, nobody having asked for a stop. The monitor sees the exit and reads the
  pipe; \<^verbatim>\<open>stderr.read()\<close> raises \<^verbatim>\<open>UnicodeDecodeError\<close>, which nothing in
  \<^verbatim>\<open>_monitor_watch_process\<close> handles, and the thread ends before the backoff and
  the restart. No thread is left that could take a step (\<open>abandoned_system_halts\<close>):
  watch mode is not restarted, and the status reports the mode \<^verbatim>\<open>stopped\<close> while
  \<^verbatim>\<open>is_running\<close> stays true.
\<close>

theorem monitor_dies_reading_stderr:
  "run (example_env (Inl (OtherException ''unused'')))
     [ChildExits 0 1, Thread 0, Thread 0, ThreadReadFails 0] watching_system =
     Some abandoned_system \<and>
   map_of (get_status (example_env (Inl (OtherException ''unused''))) abandoned_system) ''mode'' =
     Some (PStr ''stopped'') \<and>
   map_of (get_status (example_env (Inl (OtherException ''unused''))) abandoned_system)
     ''is_running'' = Some (PBool True) \<and>
   \<not> live_watch_child abandoned_system"
  by (simp add: watching_system_def abandoned_system_def step_def thread_step_def
      monitor_step_def set_thread_def set_proc_def alive_def new_indexer_def get_status_def
      watch_running_def periodic_running_def live_watch_child_def)

text \<open>
  Claim C9 as stated fails: an index pass whose child completes with exit code 1, which
  \<^verbatim>\<open>_run_index\<close> logs as completed with errors, changes the last-index-time field of
  the status from \<^verbatim>\<open>None\<close> to its own timestamp.
\<close>

theorem last_index_time_counterexample:
  "map_of (get_status (example_env (Inr \<lparr>returncode = 1, stdout = [], stderr = ''index corrupted''\<rparr>))
            watching_system) ''last_index_time'' = Some PNone \<and>
   map_of (get_status (example_env (Inr \<lparr>returncode = 1, stdout = [], stderr = ''index corrupted''\<rparr>))
            (index_pass (example_env (Inr \<lparr>returncode = 1, stdout = [], stderr = ''index corrupted''\<rparr>))
               False watching_system)) ''last_index_time'' = Some (PStr ''0'')"
  by (simp add: get_status_def index_pass_def run_index_def watching_system_def new_indexer_def
      example_env_def str_int_def digits_nat.simps)

text \<open>
  Claim C9, amended. The last-index-time field of the status is the timestamp of the
  last index pass whose child process ran to completion, whatever its exit code: such a
  pass sets the field to its own time and counts; a pass that times out or raises
  leaves the whole status unchanged.
\<close>

theorem last_index_time_on_completion:
  "(\<forall>result.
      subprocess_run ev (if full then [cass_binary (background_indexer s), ''index'', ''--full'']
                         else [cass_binary (background_indexer s), ''index''])
        (data_dir (background_indexer s)) 300 = Inr result \<longrightarrow>
      map_of (get_status ev (index_pass ev full s)) ''last_index_time'' =
        Some (PStr (isoformat ev (clock s))) \<and>
      index_count (background_indexer (index_pass ev full s)) =
        Suc (index_count (background_indexer s))) \<and>
   (\<forall>e.
      subprocess_run ev (if full then [cass_binary (background_indexer s), ''index'', ''--full'']
                         else [cass_binary (background_indexer s), ''index''])
        (data_dir (background_indexer s)) 300 = Inl e \<longrightarrow>
      get_status ev (index_pass ev full s) = get_status ev s)"
  by (simp add: get_status_def index_pass_watch_running index_pass_periodic_running
      index_pass_indexer run_index_cases split: option.splits)

theorem last_index_time_on_completion_witness:
  "map_of (get_status (example_env (Inr \<lparr>returncode = 0, stdout = [], stderr = []\<rparr>))
            (index_pass (example_env (Inr \<lparr>returncode = 0, stdout = [], stderr = []\<rparr>))
               True watching_system)) ''last_index_time'' = Some (PStr ''0'') \<and>
   get_status (example_env (Inl (TimeoutExpired ''timed out'')))
            (index_pass (example_env (Inl (TimeoutExpired ''timed out''))) True watching_system) =
   get_status (example_env (Inl (TimeoutExpired ''timed out''))) watching_system"
  using last_index_time_on_completion
          [of "example_env (Inr \<lparr>returncode = 0, stdout = [], stderr = []\<rparr>)" True watching_system]
        last_index_time_on_completion
          [of "example_env (Inl (TimeoutExpired ''timed out''))" True watching_system]
  by (simp add: example_env_def watching_system_def str_int_def digits_nat.simps)

text \<open>
  Claim C7. Undisturbed, and with a child that exits within the five seconds after
  \<^verbatim>\<open>terminate()\<close>, \<^verbatim>\<open>stop()\<close> does what the claim says (\<open>stop_undisturbed\<close>,
  \<open>stop_twice\<close>). Against a monitor in its backoff it does not: the watch child has
  exited, the monitor has read the stop event as unset and sleeps its five seconds;
  \<^verbatim>\<open>stop()\<close> runs to its end, finding no child to terminate; the monitor wakes up and
  calls \<^verbatim>\<open>_start_watch_mode()\<close> without testing the event again. A watch child runs
  after \<^verbatim>\<open>stop()\<close> has returned, and the monitor started with it ends at once
  since the event is set.
\<close>

theorem stop_race_leaves_live_child:
  "run (example_env (Inl (OtherException ''unused'')))
     [ChildExits 0 1, Thread 0, Thread 0, Thread 0,
      CallStop, StopStep None, StopStep None, StopStep None,
      Thread 0, Thread 0, Thread 1, Thread 1]
     watching_system =
   Some \<lparr>background_indexer =
           (new_indexer ''/app/cass'' ''/root/.cass'')
             \<lparr>watch_process := Some 1, stop_event := True, is_running := False\<rparr>,
         procs = [Exited 1, Running], threads = [Monitor MDone, Monitor MDone],
         stopping = Some SDone, clock = 0\<rparr> \<and>
   live_watch_child
     \<lparr>background_indexer =
           (new_indexer ''/app/cass'' ''/root/.cass'')
             \<lparr>watch_process := Some 1, stop_event := True, is_running := False\<rparr>,
         procs = [Exited 1, Running], threads = [Monitor MDone, Monitor MDone],
         stopping = Some SDone, clock = 0\<rparr>"
  by (simp add: watching_system_def step_def thread_step_def monitor_step_def stop_step_def
      set_thread_def set_proc_def alive_def start_watch_mode_def new_indexer_def
      live_watch_child_def)

end
